theory Spec2Isabelle
  imports Complex_Main
begin

section \<open>Flower garden: seeded geometry, wind animation, placement and storage\<close>

text \<open>
  The development embeds the computational parts of
  \<^verbatim>\<open>src/components/flower-scene.tsx\<close> and \<^verbatim>\<open>src/lib/flower-storage.ts\<close>.

  Number model: a JavaScript \<^verbatim>\<open>number\<close> is modelled as a mathematical real
  (\<^typ>\<open>real\<close>); \<^verbatim>\<open>Math.sin\<close>, \<^verbatim>\<open>Math.cos\<close>, \<^verbatim>\<open>Math.floor\<close>, \<^verbatim>\<open>Math.max\<close> and
  \<^verbatim>\<open>Math.PI\<close> are \<^const>\<open>sin\<close>, \<^const>\<open>cos\<close>, \<^const>\<open>floor\<close>, \<^const>\<open>max\<close> and
  \<^const>\<open>pi\<close>. Rounding of IEEE-754 doubles, \<^verbatim>\<open>NaN\<close> and the infinities are outside
  this model; a statement about numbers below is a statement about exact arithmetic. The
  one exception is the seeded generator, which is given a second time with the rounding of
  double precision written out, because its upper bound depends on it.
\<close>

subsection \<open>Seeded random generator\<close>

text \<open>
  \<^verbatim>\<open>
  const createRandomGenerator = (seed: number) => {
    return (min: number, max: number, seedOffset = 0): number => {
      const x = Math.sin(seed + seedOffset) * 10000
      return min + (x - Math.floor(x)) * (max - min)
    }
  }
  \<close>
  The closure returned for a seed is the partial application
  \<open>createRandomGenerator seed\<close>. The default \<open>seedOffset = 0\<close> is the second
  definition; every call in the source passes the offset.
\<close>

definition createRandomGenerator :: "real \<Rightarrow> real \<Rightarrow> real \<Rightarrow> real \<Rightarrow> real" where
  "createRandomGenerator seed min_v max_v seedOffset =
     (let x = sin (seed + seedOffset) * 10000
      in min_v + (x - of_int \<lfloor>x\<rfloor>) * (max_v - min_v))"

definition createRandomGenerator_default :: "real \<Rightarrow> real \<Rightarrow> real \<Rightarrow> real" where
  "createRandomGenerator_default seed min_v max_v = createRandomGenerator seed min_v max_v 0"

subsection \<open>The seeded generator in double precision\<close>

text \<open>
  A JavaScript \<^verbatim>\<open>number\<close> is an IEEE-754 binary64 value and every arithmetic operation
  rounds its exact result to the nearest such value, ties to the even significand.
  \<open>to_double\<close> is that rounding for a real of the normal range: with
  \<open>2^e \<le> |x| < 2^(e+1)\<close> the value is rounded to a multiple of \<open>2^(e-52)\<close> (53 bits of
  significand). Subnormal numbers, overflow, \<^verbatim>\<open>NaN\<close> and the infinities are not modelled;
  no value below comes near them.
\<close>

definition round_half_even :: "real \<Rightarrow> int" where
  "round_half_even r =
     (let f = \<lfloor>r\<rfloor>
      in if r - of_int f < 1 / 2 then f
         else if 1 / 2 < r - of_int f then f + 1
         else if even f then f else f + 1)"

definition to_double :: "real \<Rightarrow> real" where
  "to_double x =
     (if x = 0 then 0
      else (let e = \<lfloor>log 2 \<bar>x\<bar>\<rfloor>
            in of_int (round_half_even (x * 2 powr (52 - of_int e))) * 2 powr (of_int e - 52)))"

text \<open>
  The generator with every operation of its two lines rounded: the sum
  \<open>seed + seedOffset\<close>, \<^verbatim>\<open>Math.sin\<close> (taken as the correctly rounded sine), the product
  with 10000, the difference \<open>x - Math.floor(x)\<close> (\<^verbatim>\<open>Math.floor\<close> is exact), the
  difference \<open>max - min\<close>, the product and the final sum. The arguments are doubles.
\<close>

definition createRandomGenerator_double :: "real \<Rightarrow> real \<Rightarrow> real \<Rightarrow> real \<Rightarrow> real" where
  "createRandomGenerator_double seed min_v max_v seedOffset =
     (let x = to_double (to_double (sin (to_double (seed + seedOffset))) * 10000)
      in to_double (min_v + to_double (to_double (x - of_int \<lfloor>x\<rfloor>) * to_double (max_v - min_v))))"

subsection \<open>Flower properties and the petal layout\<close>

text \<open>
  \<^verbatim>\<open>interface FlowerProps\<close>. Optional properties are \<open>option\<close>s; \<open>id\<close> is
  \<open>flower_id\<close> because \<open>id\<close> is the identity function of HOL. \<open>lastWatered\<close> is
  declared \<^verbatim>\<open>number\<close> but receives the \<^verbatim>\<open>string | null\<close> of a stored flower, so
  it is a primitive value that may be undefined, null, a number or a string.
\<close>

datatype js_prim = Undefined | Null | Num real | Str string


type_synonym vec3 = "real \<times> real \<times> real"

record FlowerProps =
  petalCount :: real
  petalLength :: real
  petalWidth :: real
  stemHeight :: real
  petalColor :: string
  centerColor :: string
  stemColor :: string
  seed :: real
  isPlanted :: bool
  username :: "string option"
  position :: "vec3 option"
  lastWatered :: js_prim
  flower_id :: "string option"

text \<open>
  The element pushed by one iteration of the loop of the \<open>petals\<close> memo:
  \<^verbatim>\<open>
  <mesh key={i} position={[0, 0, 0]} rotation={[Math.PI / 2 - bend, 0, angle]}>
    <planeGeometry args={[width * 2, length * 2]} />
    <meshStandardMaterial color={petalColor} ... />
  </mesh>
  \<close>
  (the constant material attributes are left out).
\<close>

record petal_mesh =
  key :: nat
  mesh_position :: vec3
  rotation :: vec3
  planeGeometry_args :: "real \<times> real"
  material_color :: string

text \<open>
  The body of the loop for index \<open>i\<close>:
  \<^verbatim>\<open>
  const angle = (i / petalCount) * Math.PI * 2
  const petalSeed = seed + i
  const length = petalLength * (0.9 + random(0, 0.2, petalSeed))
  const width = petalWidth * (0.9 + random(0, 0.2, petalSeed + 0.1))
  const baseBend = random(0.1, 0.3, petalSeed + 0.2)
  const bendVariance = random(-0.1, 0.1, petalSeed + i * 0.5)
  const bend = Math.max(0.05, baseBend + bendVariance)
  \<close>
  where \<open>random = createRandomGenerator(seed)\<close>.
\<close>

definition petal :: "FlowerProps \<Rightarrow> nat \<Rightarrow> petal_mesh" where
  "petal p i =
     (let random = createRandomGenerator (seed p);
          angle = (real i / petalCount p) * pi * 2;
          petalSeed = seed p + real i;
          length_v = petalLength p * (0.9 + random 0 0.2 petalSeed);
          width = petalWidth p * (0.9 + random 0 0.2 (petalSeed + 0.1));
          baseBend = random 0.1 0.3 (petalSeed + 0.2);
          bendVariance = random (- 0.1) 0.1 (petalSeed + real i * 0.5);
          bend = max 0.05 (baseBend + bendVariance)
      in \<lparr>key = i, mesh_position = (0, 0, 0), rotation = (pi / 2 - bend, 0, angle),
          planeGeometry_args = (width * 2, length_v * 2), material_color = petalColor p\<rparr>)"

text \<open>
  \<^verbatim>\<open>for (let i = 0; i < petalCount; i++) { ...; items.push(<mesh .../>) }\<close>:
  the counter is a natural number, the bound is the (real) property \<open>petalCount\<close>.
\<close>

function petals_loop :: "FlowerProps \<Rightarrow> nat \<Rightarrow> petal_mesh list \<Rightarrow> petal_mesh list" where
  "petals_loop p i items =
     (if real i < petalCount p then petals_loop p (Suc i) (items @ [petal p i]) else items)"
  by pat_completeness auto
termination
proof (relation "measure (\<lambda>(p, i, items). nat \<lceil>petalCount p\<rceil> - i)")
  show "wf (measure (\<lambda>(p, i, items). nat \<lceil>petalCount p\<rceil> - i))" by simp
next
  fix p :: FlowerProps and i :: nat and items :: "petal_mesh list"
  assume "real i < petalCount p"
  then have "int i < \<lceil>petalCount p\<rceil>" by linarith
  then have "i < nat \<lceil>petalCount p\<rceil>" by linarith
  then show "((p, Suc i, items @ [petal p i]), (p, i, items))
           \<in> measure (\<lambda>(p, i, items). nat \<lceil>petalCount p\<rceil> - i)"
    by simp
qed

declare petals_loop.simps [simp del]

definition petals :: "FlowerProps \<Rightarrow> petal_mesh list" where
  "petals p = petals_loop p 0 []"

text \<open>
  The four per-petal parameters, read back from the mesh the loop built: the angle is the
  third rotation component, the bend is the tilt of the first one off \<open>\<pi>/2\<close>, width and
  length are half the plane's extents.
\<close>

definition mesh_angle :: "petal_mesh \<Rightarrow> real" where
  "mesh_angle m = (case rotation m of (rx, ry, rz) \<Rightarrow> rz)"

definition mesh_bend :: "petal_mesh \<Rightarrow> real" where
  "mesh_bend m = (case rotation m of (rx, ry, rz) \<Rightarrow> pi / 2 - rx)"

definition mesh_width :: "petal_mesh \<Rightarrow> real" where
  "mesh_width m = fst (planeGeometry_args m) / 2"

definition mesh_length :: "petal_mesh \<Rightarrow> real" where
  "mesh_length m = snd (planeGeometry_args m) / 2"

definition petal_params :: "petal_mesh \<Rightarrow> real \<times> real \<times> real \<times> real" where
  "petal_params m = (mesh_angle m, mesh_length m, mesh_width m, mesh_bend m)"

subsection \<open>Wind animation\<close>

text \<open>
  \<^verbatim>\<open>
  const windParams = useMemo(() => ({
    speed: random(0.5, 1.5, 42), strength: random(0.05, 0.15, 13),
    turbulence: random(0.1, 0.3, 27), direction: random(0, Math.PI * 2, 99) }), [random])
  \<close>
\<close>

record WindParams =
  speed :: real
  strength :: real
  turbulence :: real
  direction :: real

definition windParams :: "real \<Rightarrow> WindParams" where
  "windParams seed_v =
     (let random = createRandomGenerator seed_v
      in \<lparr>speed = random 0.5 1.5 42, strength = random 0.05 0.15 13,
          turbulence = random 0.1 0.3 27, direction = random 0 (pi * 2) 99\<rparr>)"

text \<open>The local constants of the \<open>useFrame\<close> callback, as functions of the elapsed time.\<close>

definition windX :: "WindParams \<Rightarrow> real \<Rightarrow> real" where
  "windX w t = sin (t * speed w) * strength w"

definition windZ :: "WindParams \<Rightarrow> real \<Rightarrow> real" where
  "windZ w t = cos (t * speed w + 0.3) * strength w * 0.7"

definition turbulenceX :: "WindParams \<Rightarrow> real \<Rightarrow> real" where
  "turbulenceX w t = sin (t * 2.5 * speed w) * turbulence w * 0.05"

definition turbulenceZ :: "WindParams \<Rightarrow> real \<Rightarrow> real" where
  "turbulenceZ w t = cos (t * 2.7 * speed w) * turbulence w * 0.04"

definition directedWindX :: "WindParams \<Rightarrow> real \<Rightarrow> real" where
  "directedWindX w t = (windX w t + turbulenceX w t) * cos (direction w)"

definition directedWindZ :: "WindParams \<Rightarrow> real \<Rightarrow> real" where
  "directedWindZ w t = (windZ w t + turbulenceZ w t) * sin (direction w)"

text \<open>
  The transform values the callback writes. The callback returns without writing when one
  of the three group references is not set yet (\<open>refs_set = False\<close>).
\<close>

record transforms =
  stem_rotation_x :: real
  stem_rotation_z :: real
  flower_position_x :: real
  flower_position_z :: real
  petal_rotation_y :: real
  petal_rotation_x :: real
  petal_rotation_z :: real

definition useFrame :: "bool \<Rightarrow> WindParams \<Rightarrow> real \<Rightarrow> real \<Rightarrow> transforms \<Rightarrow> transforms" where
  "useFrame refs_set w stemHeight_v t tr =
     (if \<not> refs_set then tr
      else \<lparr>stem_rotation_x = directedWindZ w t * 0.2,
            stem_rotation_z = - directedWindX w t * 0.2,
            flower_position_x = directedWindX w t * stemHeight_v * 0.2,
            flower_position_z = directedWindZ w t * stemHeight_v * 0.2,
            petal_rotation_y = sin (t * 3) * 0.03,
            petal_rotation_x = cos (t * 2.5) * 0.02,
            petal_rotation_z = sin (t * 4) * 0.01\<rparr>)"

subsection \<open>Vertical placement rule\<close>

text \<open>
  Field view, \<open>PlantedFlowerWithLabel\<close>:
  \<^verbatim>\<open>
  const position = props.position ? [props.position[0], props.position[1], props.position[2]] : [0, 0, 0]
  if (props.stemHeight > 4) { position[1] = -Math.max(0, (props.stemHeight - 4) * 0.15) }
  \<close>
\<close>

definition PlantedFlowerWithLabel_position :: "FlowerProps \<Rightarrow> vec3" where
  "PlantedFlowerWithLabel_position props =
     (let pos = (case position props of Some (x, y, z) \<Rightarrow> (x, y, z) | None \<Rightarrow> (0, 0, 0))
      in if stemHeight props > 4
         then (case pos of (x, y, z) \<Rightarrow> (x, - max 0 ((stemHeight props - 4) * 0.15), z))
         else pos)"

text \<open>
  Placement caller, \<open>plantFlower\<close> of \<^verbatim>\<open>flower-storage.ts\<close>: the position that is
  inserted into the store, from \<open>flowerData.position\<close> and \<open>flowerData.stemHeight\<close>.
  \<^verbatim>\<open>
  const position = [flowerData.position[0], flowerData.position[1], flowerData.position[2]]
  if (flowerData.stemHeight > 4) { position[1] = -Math.max(0, (flowerData.stemHeight - 4) * 0.15) }
  \<close>
\<close>

definition plantFlower_position :: "vec3 \<Rightarrow> real \<Rightarrow> vec3" where
  "plantFlower_position flowerData_position flowerData_stemHeight =
     (case flowerData_position of (x, y, z) \<Rightarrow>
        if flowerData_stemHeight > 4
        then (x, - max 0 ((flowerData_stemHeight - 4) * 0.15), z)
        else (x, y, z))"

text \<open>
  Single-flower view, \<open>FlowerScene\<close>: the group holding the flower is placed at
  \<open>[0, singleFlowerYOffset, 0]\<close> with
  \<^verbatim>\<open>const singleFlowerYOffset = -Math.max(0.5, stemHeight * 0.25)\<close>.
\<close>

definition singleFlowerYOffset :: "real \<Rightarrow> real" where
  "singleFlowerYOffset stemHeight_v = - max 0.5 (stemHeight_v * 0.25)"

definition singleFlower_position :: "real \<Rightarrow> vec3" where
  "singleFlower_position stemHeight_v = (0, singleFlowerYOffset stemHeight_v, 0)"

text \<open>
  \<open>handlePlantFlower\<close> of \<^verbatim>\<open>page.tsx\<close> plants at ground level:
  \<^verbatim>\<open>const position = [x, 0, z]\<close>.
\<close>

definition handlePlantFlower_position :: "real \<Rightarrow> real \<Rightarrow> vec3" where
  "handlePlantFlower_position x z = (x, 0, z)"

subsection \<open>The just-watered effect of a planted flower\<close>













subsection \<open>Camera controller\<close>

text \<open>\<^verbatim>\<open>interface PlantedFlower\<close> (fields prefixed, as \<open>FlowerProps\<close> has the plain names).\<close>

record PlantedFlower =
  pf_id :: string
  pf_username :: string
  pf_petalCount :: real
  pf_petalLength :: real
  pf_petalWidth :: real
  pf_stemHeight :: real
  pf_petalColor :: string
  pf_centerColor :: string
  pf_stemColor :: string
  pf_seed :: real
  pf_position :: vec3
  pf_plantedAt :: string
  pf_lastWatered :: js_prim
  pf_waterCount :: "nat option"

text \<open>
  \<^verbatim>\<open>
  if (!wateredFlowerId || !plantedFlowers.length) return null
  const wateredFlower = plantedFlowers.find((flower) => flower.id === wateredFlowerId)
  return wateredFlower ? wateredFlower.position : null
  \<close>
  \<open>wateredFlowerId\<close> is \<^verbatim>\<open>string | null\<close>; the empty string is falsy.
\<close>

definition wateredFlowerPosition :: "string option \<Rightarrow> PlantedFlower list \<Rightarrow> vec3 option" where
  "wateredFlowerPosition wateredFlowerId plantedFlowers =
     (case wateredFlowerId of
        None \<Rightarrow> None
      | Some wid \<Rightarrow>
          if wid = [] \<or> length plantedFlowers = 0 then None
          else (case find (\<lambda>flower. pf_id flower = wid) plantedFlowers of
                  Some wateredFlower \<Rightarrow> Some (pf_position wateredFlower)
                | None \<Rightarrow> None))"

text \<open>
  What the effect of \<open>CameraController\<close> writes: the camera position, the point the
  camera looks at, and the target of the orbit controls, which is written only when
  \<open>controlsRef.current\<close> is set (\<open>controls_target = None\<close> when it is not).
\<close>

record camera_state =
  camera_position :: vec3
  camera_lookAt :: vec3
  controls_target :: "vec3 option"

definition frame_camera :: "vec3 \<Rightarrow> vec3 \<Rightarrow> camera_state \<Rightarrow> camera_state" where
  "frame_camera pos target cam =
     \<lparr>camera_position = pos, camera_lookAt = target,
      controls_target = (case controls_target cam of None \<Rightarrow> None | Some _ \<Rightarrow> Some target)\<rparr>"

definition CameraController ::
  "bool \<Rightarrow> vec3 option \<Rightarrow> string option \<Rightarrow> PlantedFlower list \<Rightarrow> real \<Rightarrow> camera_state \<Rightarrow> camera_state" where
  "CameraController isPlanted_v focusedFlowerPosition wateredFlowerId plantedFlowers stemHeight_v cam =
     (if isPlanted_v then
        (case wateredFlowerPosition wateredFlowerId plantedFlowers of
           Some (x, y, z) \<Rightarrow> frame_camera (x + 7, 9, z + 7) (x, y + 2, z) cam
         | None \<Rightarrow>
            (case focusedFlowerPosition of
               Some (x, y, z) \<Rightarrow> frame_camera (x + 8, 8, z + 8) (x, y, z) cam
             | None \<Rightarrow> frame_camera (8, 8, 8) (0, 0, 0) cam))
      else
        (let flowerTotalHeight = stemHeight_v + 1;
             cameraHeight = max 5 (flowerTotalHeight * 1.2);
             cameraDistance = max 4 (flowerTotalHeight * 1.0);
             lookAtHeight = stemHeight_v * 0.3
         in frame_camera (0, cameraHeight, cameraDistance) (0, lookAtHeight, 0) cam))"

subsection \<open>Fetching planted flowers\<close>

text \<open>
  A row returned by the store is an untyped object: a map from property names to JSON
  values. Reading a property that is absent gives \<open>JUndefined\<close>.
\<close>

datatype json =
    JUndefined | JNull | JBool bool | JNum real | JStr string
  | JArr "json list" | JObj "(string \<times> json) list"

type_synonym row = "string \<rightharpoonup> json"

definition get_prop :: "row \<Rightarrow> string \<Rightarrow> json" where
  "get_prop r k = (case r k of None \<Rightarrow> JUndefined | Some v \<Rightarrow> v)"

fun json_truthy :: "json \<Rightarrow> bool" where
  "json_truthy JUndefined = False"
| "json_truthy JNull = False"
| "json_truthy (JBool b) = b"
| "json_truthy (JNum n) = (n \<noteq> 0)"
| "json_truthy (JStr s) = (s \<noteq> [])"
| "json_truthy (JArr xs) = True"
| "json_truthy (JObj kvs) = True"

text \<open>\<^verbatim>\<open>Array.isArray(flower.position) && flower.position.length === 3\<close>\<close>

fun is_array3 :: "json \<Rightarrow> bool" where
  "is_array3 (JArr xs) = (length xs = 3)"
| "is_array3 _ = False"

text \<open>\<^verbatim>\<open>new Date(0).toISOString()\<close>\<close>

definition epoch :: json where
  "epoch = JStr ''1970-01-01T00:00:00.000Z''"

definition origin :: json where
  "origin = JArr [JNum 0, JNum 0, JNum 0]"

text \<open>
  The function mapped over the rows by \<open>getPlantedFlowers\<close> and \<open>getUserFlowers\<close>:
  \<^verbatim>\<open>
  (flower) => ({
    ...flower,
    position: Array.isArray(flower.position) && flower.position.length === 3
                ? flower.position : [0, 0, 0],
    plantedAt: flower.plantedAt || new Date(0).toISOString(),
    lastWatered: flower.lastWatered,
  })
  \<close>
\<close>

definition normalize_flower :: "row \<Rightarrow> row" where
  "normalize_flower flower =
     flower(''position'' \<mapsto> (if is_array3 (get_prop flower ''position'')
                              then get_prop flower ''position'' else origin),
            ''plantedAt'' \<mapsto> (if json_truthy (get_prop flower ''plantedAt'')
                               then get_prop flower ''plantedAt'' else epoch),
            ''lastWatered'' \<mapsto> get_prop flower ''lastWatered'')"

text \<open>
  The awaited answer of the store, \<open>{ data, error }\<close>: \<open>data\<close> is the list of rows or
  null, \<open>error\<close> is an error object (here its message) or null.
\<close>

record response =
  data :: "row list option"
  error :: "string option"

definition getPlantedFlowers :: "response \<Rightarrow> row list" where
  "getPlantedFlowers res =
     (if error res \<noteq> None then []
      else map normalize_flower (case data res of None \<Rightarrow> [] | Some rows \<Rightarrow> rows))"

text \<open>
  \<open>getUserFlowers(username)\<close> differs in the query it sends (\<open>.eq("username", username)\<close>)
  and treats the answer the same way.
\<close>

definition getUserFlowers :: "string \<Rightarrow> response \<Rightarrow> row list" where
  "getUserFlowers username_v res =
     (if error res \<noteq> None then []
      else map normalize_flower (case data res of None \<Rightarrow> [] | Some rows \<Rightarrow> rows))"

subsection \<open>Example inputs\<close>

text \<open>
  Concrete inputs for the instances below: the flower of the editor's initial state
  (\<^verbatim>\<open>page.tsx\<close>, with seed 0.42), a planted flower with the same four shape parameters
  and different other properties, a flower with three petals, the stored flower \<open>a\<close> at
  \<open>[1, 0, 2]\<close>, and the camera as the canvas creates it.
\<close>

definition editor_flower :: FlowerProps where
  "editor_flower =
     \<lparr>petalCount = 8, petalLength = 1, petalWidth = 0.5, stemHeight = 3,
      petalColor = ''#ff6b6b'', centerColor = ''#feca57'', stemColor = ''#1dd1a1'',
      seed = 0.42, isPlanted = False, username = None, position = None,
      lastWatered = Undefined, flower_id = None\<rparr>"

definition planted_flower :: FlowerProps where
  "planted_flower =
     \<lparr>petalCount = 8, petalLength = 1, petalWidth = 0.5, stemHeight = 5,
      petalColor = ''#000000'', centerColor = ''#ffffff'', stemColor = ''#00ff00'',
      seed = 0.42, isPlanted = True, username = Some ''ann'', position = Some (1, 0, 2),
      lastWatered = Str ''2025-01-01T00:00:00.000Z'', flower_id = Some ''a''\<rparr>"

definition three_petal_flower :: FlowerProps where
  "three_petal_flower = editor_flower\<lparr>petalCount := 3\<rparr>"

definition flower_a :: PlantedFlower where
  "flower_a =
     \<lparr>pf_id = ''a'', pf_username = ''ann'', pf_petalCount = 8, pf_petalLength = 1,
      pf_petalWidth = 0.5, pf_stemHeight = 3, pf_petalColor = ''#ff6b6b'',
      pf_centerColor = ''#feca57'', pf_stemColor = ''#1dd1a1'', pf_seed = 0.42,
      pf_position = (1, 0, 2), pf_plantedAt = ''2025-01-01T10:00:00.000Z'',
      pf_lastWatered = Null, pf_waterCount = Some 0\<rparr>"

definition initial_camera :: camera_state where
  "initial_camera =
     \<lparr>camera_position = (0, 5, 4), camera_lookAt = (0, 0, 0), controls_target = Some (0, 0, 0)\<rparr>"

text \<open>
  A fetched answer with one corrupt row (position not an array, no \<open>plantedAt\<close>) and one
  well-formed row, and the answer of a failed fetch.
\<close>

definition corrupt_row :: row where
  "corrupt_row = [''id'' \<mapsto> JStr ''a'', ''position'' \<mapsto> JStr ''oops'']"

definition good_row :: row where
  "good_row = [''id'' \<mapsto> JStr ''b'', ''position'' \<mapsto> JArr [JNum 1, JNum 0, JNum 2],
               ''plantedAt'' \<mapsto> JStr ''2025-01-01T10:00:00.000Z'']"

definition fetched :: response where
  "fetched = \<lparr>data = Some [corrupt_row, good_row], error = None\<rparr>"

definition failed_fetch :: response where
  "failed_fetch = \<lparr>data = None, error = Some ''network''\<rparr>"

subsection \<open>Properties of the seeded generator\<close>

lemma random_lower: "min_v \<le> max_v \<Longrightarrow> min_v \<le> createRandomGenerator sd min_v max_v off"
proof -
  assume le: "min_v \<le> max_v"
  have "0 \<le> frac (sin (sd + off) * 10000)" by simp
  then have "0 \<le> frac (sin (sd + off) * 10000) * (max_v - min_v)"
    using le by simp
  then show ?thesis
    by (simp add: createRandomGenerator_def Let_def frac_def)
qed

lemma random_upper: "min_v < max_v \<Longrightarrow> createRandomGenerator sd min_v max_v off < max_v"
proof -
  assume lt: "min_v < max_v"
  have "frac (sin (sd + off) * 10000) < 1" by (rule frac_lt_1)
  then have "frac (sin (sd + off) * 10000) * (max_v - min_v) < 1 * (max_v - min_v)"
    using lt by (intro mult_strict_right_mono) simp_all
  then show ?thesis
    by (simp add: createRandomGenerator_def Let_def frac_def)
qed

subsection \<open>The seeded generator at a small negative seed, in double precision\<close>

lemma round_half_even_of_int: "round_half_even (of_int m) = m"
  by (simp add: round_half_even_def)

lemma round_half_even_ge_floor: "\<lfloor>r\<rfloor> \<le> round_half_even r"
  by (simp add: round_half_even_def Let_def)

lemma round_half_even_le_ceiling: "round_half_even r \<le> \<lceil>r\<rceil>"
proof (cases "r = of_int \<lfloor>r\<rfloor>")
  case True
  then have "round_half_even r = \<lfloor>r\<rfloor>"
    by (metis round_half_even_of_int)
  then show ?thesis by (simp add: floor_le_ceiling)
next
  case False
  then have "\<lceil>r\<rceil> = \<lfloor>r\<rfloor> + 1"
    by (metis ceiling_altdef)
  then show ?thesis by (simp add: round_half_even_def Let_def)
qed

lemma round_half_even_up:
  "1 / 2 < r - of_int \<lfloor>r\<rfloor> \<Longrightarrow> round_half_even r = \<lfloor>r\<rfloor> + 1"
  by (simp add: round_half_even_def Let_def)

lemma to_double_exact:
  assumes "2 ^ 52 \<le> \<bar>m\<bar>" and "\<bar>m\<bar> < 2 ^ 53"
  shows "to_double (of_int m * 2 powr (of_int e - 52)) = of_int m * 2 powr (of_int e - 52)"
proof -
  let ?x = "of_int m * 2 powr (of_int e - 52) :: real"
  have m0: "m \<noteq> 0" using assms(1) by auto
  then have x0: "?x \<noteq> 0" by simp
  have absx: "\<bar>?x\<bar> = of_int \<bar>m\<bar> * 2 powr (of_int e - 52)"
    by (simp add: abs_mult)
  have p52: "(2::real) powr 52 = 2 ^ 52" by simp
  have p53: "(2::real) powr 53 = 2 ^ 53" by simp
  have lo: "2 powr (of_int e) \<le> \<bar>?x\<bar>"
  proof -
    have "(52::real) + (of_int e - 52) = of_int e" by simp
    then have "(2::real) powr (of_int e) = 2 powr 52 * 2 powr (of_int e - 52)"
      by (simp only: powr_add [symmetric])
    also have "\<dots> \<le> of_int \<bar>m\<bar> * 2 powr (of_int e - 52)"
    proof (rule mult_right_mono)
      have "(of_int (2 ^ 52) :: real) \<le> of_int \<bar>m\<bar>"
        using assms(1) by (simp only: of_int_le_iff)
      then have "(2::real) ^ 52 \<le> of_int \<bar>m\<bar>" by simp
      then show "(2::real) powr 52 \<le> of_int \<bar>m\<bar>" by (simp only: p52)
    qed simp
    finally show ?thesis by (simp only: absx)
  qed
  have hi: "\<bar>?x\<bar> < 2 powr (of_int (e + 1))"
  proof -
    have "of_int \<bar>m\<bar> * 2 powr (of_int e - 52) < (2::real) powr 53 * 2 powr (of_int e - 52)"
    proof (rule mult_strict_right_mono)
      have "(of_int \<bar>m\<bar> :: real) < of_int (2 ^ 53)"
        using assms(2) by (simp only: of_int_less_iff)
      then have "of_int \<bar>m\<bar> < (2::real) ^ 53" by simp
      then show "of_int \<bar>m\<bar> < (2::real) powr 53" by (simp only: p53)
    qed simp
    also have "\<dots> = 2 powr (of_int (e + 1))"
    proof -
      have "(53::real) + (of_int e - 52) = of_int (e + 1)" by simp
      then show ?thesis by (simp only: powr_add [symmetric])
    qed
    finally show ?thesis by (simp only: absx)
  qed
  have fl: "\<lfloor>log 2 \<bar>?x\<bar>\<rfloor> = e"
    using x0 lo hi by (subst floor_log_eq_powr_iff) simp_all
  have "?x * 2 powr (52 - of_int e) = of_int m * (2 powr (of_int e - 52) * 2 powr (52 - of_int e))"
    by simp
  also have "\<dots> = of_int m"
  proof -
    have "(of_int e - 52) + (52 - of_int e) = (0::real)" by simp
    then have "(2::real) powr (of_int e - 52) * 2 powr (52 - of_int e) = 1"
      by (simp only: powr_add [symmetric] powr_zero_eq_one) simp
    then show ?thesis by simp
  qed
  finally have r: "?x * 2 powr (52 - of_int e) = of_int m" .
  show ?thesis
    unfolding to_double_def using x0 by (simp only: fl Let_def r round_half_even_of_int if_False)
qed

lemma to_double_small_negative:
  assumes "- (2 powr of_int k) \<le> y" and "y < 0"
  shows "- (2 powr of_int (k + 1)) \<le> to_double y \<and> to_double y < 0"
proof -
  define e where "e = \<lfloor>log 2 \<bar>y\<bar>\<rfloor>"
  define P :: real where "P = 2 powr (52 - of_int e)"
  define Q :: real where "Q = 2 powr (of_int e - 52)"
  define n where "n = round_half_even (y * P)"
  have ypos: "0 < \<bar>y\<bar>" using assms(2) by simp
  have "2 powr (of_int e) \<le> \<bar>y\<bar> \<and> \<bar>y\<bar> < 2 powr (of_int (e + 1))"
    using floor_log_eq_powr_iff [of "\<bar>y\<bar>" 2 e] ypos e_def by simp
  then have e_lo: "y \<le> - (2 powr of_int e)" and e_hi: "- (2 powr of_int (e + 1)) < y"
    using assms(2) by simp_all
  have "2 powr of_int e \<le> (2::real) powr of_int k"
    using e_lo assms(1) by linarith
  then have ek: "e \<le> k" by simp
  have Ppos: "0 < P" and Qpos: "0 < Q" by (simp_all add: P_def Q_def)
  have PQ52: "2 powr of_int e * P = 2 ^ 52"
  proof -
    have "of_int e + (52 - of_int e) = (52::real)" by simp
    then have "(2::real) powr of_int e * 2 powr (52 - of_int e) = 2 powr 52"
      by (simp only: powr_add [symmetric])
    then show ?thesis by (simp add: P_def)
  qed
  have PQ53: "2 powr of_int (e + 1) * P = 2 ^ 53"
  proof -
    have "of_int (e + 1) + (52 - of_int e) = (53::real)" by simp
    then have "(2::real) powr of_int (e + 1) * 2 powr (52 - of_int e) = 2 powr 53"
      by (simp only: powr_add [symmetric])
    then show ?thesis by (simp add: P_def)
  qed
  have Q52: "2 ^ 52 * Q = 2 powr of_int e"
  proof -
    have "52 + (of_int e - 52) = (of_int e :: real)" by simp
    then have "(2::real) powr 52 * 2 powr (of_int e - 52) = 2 powr of_int e"
      by (simp only: powr_add [symmetric])
    then show ?thesis by (simp add: Q_def)
  qed
  have Q53: "2 ^ 53 * Q = 2 powr of_int (e + 1)"
  proof -
    have "53 + (of_int e - 52) = (of_int (e + 1) :: real)" by simp
    then have "(2::real) powr 53 * 2 powr (of_int e - 52) = 2 powr of_int (e + 1)"
      by (simp only: powr_add [symmetric])
    then show ?thesis by (simp add: Q_def)
  qed
  have r_hi: "y * P \<le> - (2 ^ 52)"
  proof -
    have "y * P \<le> - (2 powr of_int e) * P"
      using e_lo Ppos by (intro mult_right_mono) simp_all
    then show ?thesis using PQ52 by simp
  qed
  have r_lo: "- (2 ^ 53) < y * P"
  proof -
    have "- (2 powr of_int (e + 1)) * P < y * P"
      using e_hi Ppos by (intro mult_strict_right_mono) simp_all
    then show ?thesis using PQ53 by simp
  qed
  have c: "\<lceil>y * P\<rceil> \<le> - (2 ^ 52)"
    by (rule ceiling_le) (use r_hi in simp)
  have n_hi: "n \<le> - (2 ^ 52)"
    unfolding n_def using round_half_even_le_ceiling [of "y * P"] c by (rule order_trans)
  have f: "- (2 ^ 53) \<le> \<lfloor>y * P\<rfloor>"
    by (subst le_floor_iff) (use r_lo in simp)
  have n_lo: "- (2 ^ 53) \<le> n"
    unfolding n_def using f round_half_even_ge_floor [of "y * P"] by (rule order_trans)
  have "y \<noteq> 0" using assms(2) by simp
  then have td: "to_double y = of_int n * Q"
    unfolding n_def P_def Q_def e_def to_double_def Let_def by (simp only: if_False)
  have rn_hi: "(of_int n :: real) \<le> - (2 ^ 52)"
    using n_hi of_int_le_iff [of n "- (2 ^ 52)", where ?'a = real] by simp
  have rn_lo: "- (2 ^ 53) \<le> (of_int n :: real)"
    using n_lo of_int_le_iff [of "- (2 ^ 53)" n, where ?'a = real] by simp
  have "of_int n * Q \<le> - (2 ^ 52) * Q"
    using rn_hi Qpos by (intro mult_right_mono) simp_all
  also have "\<dots> < 0" using Qpos by simp
  finally have neg: "to_double y < 0" by (simp only: td)
  have "- ((2::real) powr of_int (k + 1)) \<le> - (2 powr of_int (e + 1))"
    using ek by simp
  also have "\<dots> = - (2 ^ 53) * Q" using Q53 by simp
  also have "\<dots> \<le> of_int n * Q"
    using rn_lo Qpos by (intro mult_right_mono) simp_all
  finally have "- (2 powr of_int (k + 1)) \<le> to_double y" by (simp only: td)
  then show ?thesis using neg by simp
qed

lemma fraction_rounds_to_one:
  assumes "- (1 / 2 ^ 64) \<le> x" and "x < 0"
  shows "to_double (x - of_int \<lfloor>x\<rfloor>) = 1"
proof -
  have "(1::real) / 2 ^ 64 \<le> 1" by simp
  then have "- 1 \<le> x" using assms(1) by linarith
  then have fl: "\<lfloor>x\<rfloor> = - 1" using assms(2) by (intro floor_unique) simp_all
  define v where "v = x + 1"
  have v_lo: "1 - 1 / 2 ^ 64 \<le> v" and v_hi: "v < 1"
    using assms by (simp_all add: v_def)
  have vpos: "0 < v" and vhalf: "1 / 2 \<le> v" using v_lo by simp_all
  have e: "\<lfloor>log 2 v\<rfloor> = - 1"
    using vpos vhalf v_hi by (subst floor_log_eq_powr_iff) (simp_all add: powr_minus divide_simps)
  have "v * 2 ^ 53 < 2 ^ 53" using v_hi by simp
  moreover have "(1 - 1 / 2 ^ 64) * 2 ^ 53 \<le> v * 2 ^ 53"
    using v_lo by (intro mult_right_mono) simp_all
  then have r_lo: "2 ^ 53 - 1 / 2 ^ 11 \<le> v * 2 ^ 53" by simp
  ultimately have fr: "\<lfloor>v * 2 ^ 53\<rfloor> = 2 ^ 53 - 1"
    by (intro floor_unique) simp_all
  have "1 / 2 < v * 2 ^ 53 - of_int \<lfloor>v * 2 ^ 53\<rfloor>"
    using r_lo by (simp only: fr) simp
  then have "round_half_even (v * 2 ^ 53) = \<lfloor>v * 2 ^ 53\<rfloor> + 1"
    by (rule round_half_even_up)
  also have "\<dots> = (2 ^ 53 - 1) + 1" by (simp only: fr)
  also have "\<dots> = 2 ^ 53" by simp
  finally have rne: "round_half_even (v * 2 ^ 53) = 2 ^ 53" .
  have "to_double v = of_int (round_half_even (v * 2 powr 53)) * 2 powr (- 53)"
    using vpos by (simp add: to_double_def e Let_def)
  also have "\<dots> = of_int (2 ^ 53) * (1 / 2 ^ 53)"
  proof -
    have p: "(2::real) powr 53 = 2 ^ 53" by simp
    have q: "(2::real) powr (- 53) = 1 / 2 ^ 53" by (simp add: powr_minus divide_simps)
    show ?thesis by (simp only: p q rne)
  qed
  also have "\<dots> = 1" by simp
  finally show ?thesis by (simp add: fl v_def)
qed

lemma to_double_one: "to_double 1 = 1"
proof -
  have a: "to_double (of_int (2 ^ 52) * 2 powr (of_int 0 - 52)) = of_int (2 ^ 52) * 2 powr (of_int 0 - 52)"
    by (rule to_double_exact) simp_all
  have b: "of_int (2 ^ 52) * 2 powr (of_int 0 - 52) = (1::real)"
    by (simp add: powr_minus divide_simps)
  from a show ?thesis by (simp only: b)
qed

lemma to_double_three_halves: "to_double (3 / 2) = 3 / 2"
proof -
  have a: "to_double (of_int (3 * 2 ^ 51) * 2 powr (of_int 0 - 52))
      = of_int (3 * 2 ^ 51) * 2 powr (of_int 0 - 52)"
    by (rule to_double_exact) simp_all
  have b: "of_int (3 * 2 ^ 51) * 2 powr (of_int 0 - 52) = (3 / 2 :: real)"
    by (simp add: powr_minus divide_simps)
  from a show ?thesis by (simp only: b)
qed

lemma to_double_neg_pow80: "to_double (- (1 / 2 ^ 80)) = - (1 / 2 ^ 80)"
proof -
  have a: "to_double (of_int (- (2 ^ 52)) * 2 powr (of_int (- 80) - 52))
      = of_int (- (2 ^ 52)) * 2 powr (of_int (- 80) - 52)"
    by (rule to_double_exact) simp_all
  have b: "of_int (- (2 ^ 52)) * 2 powr (of_int (- 80) - 52) = (- (1 / 2 ^ 80) :: real)"
    by (simp add: powr_minus divide_simps)
  from a show ?thesis by (simp only: b)
qed

text \<open>
  Claim C2 says the result lies in \<open>[min, max)\<close>. In exact arithmetic it does
  (\<open>random_lower\<close>, \<open>random_upper\<close>). In double precision it does not: for the seed
  \<open>-2^-80\<close>, offset 0 and the bounds 0.5 and 1.5 of the wind speed, the sine is a
  negative number of size about \<open>2^-80\<close>, \<open>x\<close> is negative and above \<open>-2^-64\<close>, its
  floor is \<open>-1\<close>, and \<open>x - Math.floor(x) = x + 1\<close> rounds to 1; the result is the upper
  bound 1.5 itself.
\<close>

theorem random_double_reaches_max:
  "createRandomGenerator_double (- (1 / 2 ^ 80)) 0.5 1.5 0 = 1.5"
proof -
  let ?s = "- (1 / 2 ^ 80) :: real"
  define v1 where "v1 = to_double (sin ?s)"
  define x where "x = to_double (v1 * 10000)"
  have 1: "to_double (?s + 0) = ?s"
    using to_double_neg_pow80 by simp
  have "sin (- ?s) \<le> - ?s" by (rule sin_x_le_x) simp
  then have s_lo: "?s \<le> sin ?s" by simp
  have "(1::real) / 2 ^ 80 < 2" by simp
  then have "- ?s < pi" using pi_ge_two by simp
  then have "0 < sin (- ?s)" by (intro sin_gt_zero) simp_all
  then have s_hi: "sin ?s < 0" by simp
  have "- (2 powr of_int (- 80)) \<le> sin ?s"
    using s_lo by (simp add: powr_minus divide_simps)
  then have "- (2 powr of_int (- 80 + 1)) \<le> v1 \<and> v1 < 0"
    unfolding v1_def using s_hi by (rule to_double_small_negative)
  then have v1_lo: "- (1 / 2 ^ 79) \<le> v1" and v1_hi: "v1 < 0"
    by (simp_all add: powr_minus divide_simps)
  have "- (1 / 2 ^ 79) * 10000 \<le> v1 * 10000"
    using v1_lo by (intro mult_right_mono) simp_all
  moreover have "- (1 / 2 ^ 65) \<le> - (1 / 2 ^ 79) * (10000::real)" by simp
  ultimately have "- (1 / 2 ^ 65) \<le> v1 * 10000" by (rule order_trans [rotated])
  then have p_lo: "- (2 powr of_int (- 65)) \<le> v1 * 10000"
    by (simp add: powr_minus divide_simps)
  have p_hi: "v1 * 10000 < 0" using v1_hi by simp
  have "- (2 powr of_int (- 65 + 1)) \<le> x \<and> x < 0"
    unfolding x_def using p_lo p_hi by (rule to_double_small_negative)
  then have x_lo: "- (1 / 2 ^ 64) \<le> x" and x_hi: "x < 0"
    by (simp_all add: powr_minus divide_simps)
  have 5: "to_double (x - of_int \<lfloor>x\<rfloor>) = 1"
    using x_lo x_hi by (rule fraction_rounds_to_one)
  have 6: "to_double (1.5 - 0.5) = 1" using to_double_one by simp
  have 7: "to_double (1 * 1) = 1" using to_double_one by simp
  have 8: "to_double (0.5 + 1) = 1.5" using to_double_three_halves by simp
  show ?thesis
    unfolding createRandomGenerator_double_def Let_def
    by (simp only: 1 v1_def [symmetric] x_def [symmetric] 5 6 7 8)
qed

subsection \<open>Petal layout\<close>

lemma petals_loop_eq:
  "petals_loop p i items = items @ map (petal p) [i..<nat \<lceil>petalCount p\<rceil>]"
proof (induction p i items rule: petals_loop.induct)
  case (1 p i items)
  show ?case
  proof (cases "real i < petalCount p")
    case True
    then have "int i < \<lceil>petalCount p\<rceil>" by linarith
    then have lt: "i < nat \<lceil>petalCount p\<rceil>" by linarith
    have "petals_loop p i items = petals_loop p (Suc i) (items @ [petal p i])"
      using True by (subst petals_loop.simps) (simp only: if_True)
    also have "\<dots> = (items @ [petal p i]) @ map (petal p) [Suc i..<nat \<lceil>petalCount p\<rceil>]"
      by (rule "1.IH" [OF True])
    also have "\<dots> = items @ map (petal p) [i..<nat \<lceil>petalCount p\<rceil>]"
      using lt by (simp only: upt_conv_Cons list.map append_assoc append_Cons append_Nil)
    finally show ?thesis .
  next
    case False
    then have "\<lceil>petalCount p\<rceil> \<le> int i" by (simp add: ceiling_le_iff)
    then have ge: "nat \<lceil>petalCount p\<rceil> \<le> i" by linarith
    have "petals_loop p i items = items"
      using False by (subst petals_loop.simps) (simp only: if_False)
    then show ?thesis using ge by (simp only: upt_conv_Nil list.map append_Nil2)
  qed
qed

lemma petals_eq: "petals p = map (petal p) [0..<nat \<lceil>petalCount p\<rceil>]"
  by (simp add: petals_def petals_loop_eq)

lemma petal_params_petal:
  "petal_params (petal p i) =
     (real i / petalCount p * pi * 2,
      petalLength p * (0.9 + createRandomGenerator (seed p) 0 0.2 (seed p + real i)),
      petalWidth p * (0.9 + createRandomGenerator (seed p) 0 0.2 (seed p + real i + 0.1)),
      max 0.05 (createRandomGenerator (seed p) 0.1 0.3 (seed p + real i + 0.2)
              + createRandomGenerator (seed p) (- 0.1) 0.1 (seed p + real i + real i * 0.5)))"
  by (simp add: petal_params_def petal_def Let_def mesh_angle_def mesh_length_def
      mesh_width_def mesh_bend_def)

text \<open>
  Claim C1. Two flowers with the same \<open>petalCount\<close>, \<open>petalLength\<close>, \<open>petalWidth\<close> and
  \<open>seed\<close> get the same ordered sequence of (angle, length, width, bend) values, whatever
  their other properties are (stem height, colours, planted flag, user name, position,
  watering time, id); the layout function has no further argument, so nothing else (no
  global state, no clock) enters it.
\<close>

theorem petal_layout_deterministic:
  assumes "petalCount f1 = petalCount f2" and "petalLength f1 = petalLength f2"
    and "petalWidth f1 = petalWidth f2" and "seed f1 = seed f2"
  shows "map petal_params (petals f1) = map petal_params (petals f2)"
  using assms by (simp add: petals_eq petal_params_petal)

theorem petal_layout_deterministic_witness:
  "petalCount editor_flower = petalCount planted_flower
   \<and> petalLength editor_flower = petalLength planted_flower
   \<and> petalWidth editor_flower = petalWidth planted_flower
   \<and> seed editor_flower = seed planted_flower
   \<and> map petal_params (petals editor_flower) = map petal_params (petals planted_flower)"
  (is "petalCount ?a = petalCount ?b \<and> _")
proof -
  have h: "petalCount ?a = petalCount ?b" "petalLength ?a = petalLength ?b"
    "petalWidth ?a = petalWidth ?b" "seed ?a = seed ?b"
    by (simp_all add: editor_flower_def planted_flower_def)
  show ?thesis
    using h petal_layout_deterministic [OF h] by simp
qed

subsection \<open>Petal angles\<close>

lemma petals_nat:
  assumes "petalCount p = real N"
  shows "petals p = map (petal p) [0..<N]"
  using assms by (simp add: petals_eq)

lemma mesh_angle_petal: "mesh_angle (petal p i) = real i / petalCount p * pi * 2"
  by (simp add: mesh_angle_def petal_def Let_def)

text \<open>
  Claim C3. For a petal count that is a whole number \<open>N \<ge> 1\<close> the layout has exactly
  \<open>N\<close> petals, petal \<open>i\<close> (\<open>0 \<le> i < N\<close>) has angle \<open>i / N * 2\<pi>\<close>, the angles increase
  strictly with the index, and all of them lie in \<open>[0, 2\<pi>)\<close>.
\<close>

theorem petal_angles:
  assumes "petalCount p = real N" and "1 \<le> N"
  shows "length (petals p) = N
       \<and> (\<forall>i<N. mesh_angle (petals p ! i) = real i / real N * (2 * pi))
       \<and> (\<forall>i j. i < j \<and> j < N \<longrightarrow> mesh_angle (petals p ! i) < mesh_angle (petals p ! j))
       \<and> (\<forall>i<N. 0 \<le> mesh_angle (petals p ! i) \<and> mesh_angle (petals p ! i) < 2 * pi)"
proof -
  have len: "length (petals p) = N"
    using assms(1) by (simp add: petals_nat)
  have ang: "mesh_angle (petals p ! i) = real i / real N * (2 * pi)" if "i < N" for i
    using that assms(1) by (simp add: petals_nat mesh_angle_petal)
  have Npos: "0 < real N" using assms(2) by simp
  have mono: "mesh_angle (petals p ! i) < mesh_angle (petals p ! j)" if "i < j" "j < N" for i j
  proof -
    have "real i / real N < real j / real N"
      using that Npos by (simp add: divide_strict_right_mono)
    then have "real i / real N * (2 * pi) < real j / real N * (2 * pi)"
      by (rule mult_strict_right_mono) simp
    then show ?thesis using that by (simp add: ang)
  qed
  have rng: "0 \<le> mesh_angle (petals p ! i) \<and> mesh_angle (petals p ! i) < 2 * pi" if "i < N" for i
  proof -
    have "real i / real N < 1" using that Npos by simp
    then have "real i / real N * (2 * pi) < 1 * (2 * pi)"
      by (rule mult_strict_right_mono) simp
    moreover have "0 \<le> real i / real N * (2 * pi)" by simp
    ultimately show ?thesis using that by (simp add: ang)
  qed
  show ?thesis using len ang mono rng by blast
qed

theorem petal_angles_witness:
  "petalCount three_petal_flower = real (3::nat) \<and> 1 \<le> (3::nat)
   \<and> length (petals three_petal_flower) = 3
   \<and> mesh_angle (petals three_petal_flower ! 1) = real 1 / real 3 * (2 * pi)
   \<and> mesh_angle (petals three_petal_flower ! 1) < mesh_angle (petals three_petal_flower ! 2)
   \<and> mesh_angle (petals three_petal_flower ! 2) < 2 * pi"
  (is "petalCount ?p = _ \<and> _")
proof -
  have h1: "petalCount ?p = real (3::nat)"
    by (simp add: three_petal_flower_def)
  have h2: "1 \<le> (3::nat)" by simp
  have t: "length (petals ?p) = 3
       \<and> (\<forall>i<3. mesh_angle (petals ?p ! i) = real i / real 3 * (2 * pi))
       \<and> (\<forall>i j. i < j \<and> j < 3 \<longrightarrow> mesh_angle (petals ?p ! i) < mesh_angle (petals ?p ! j))
       \<and> (\<forall>i<3. 0 \<le> mesh_angle (petals ?p ! i) \<and> mesh_angle (petals ?p ! i) < 2 * pi)"
    using petal_angles [OF h1 h2] by simp
  have a: "mesh_angle (petals ?p ! 1) = real 1 / real 3 * (2 * pi)"
    using t by (simp del: of_nat_Suc)
  have b: "mesh_angle (petals ?p ! 1) < mesh_angle (petals ?p ! 2)"
    using t by (simp del: of_nat_Suc)
  have c: "mesh_angle (petals ?p ! 2) < 2 * pi"
    using t by (simp del: of_nat_Suc)
  show ?thesis using h1 h2 t a b c by blast
qed

subsection \<open>Wind animation bounds\<close>

lemma windParams_nonneg:
  "0 \<le> strength (windParams s) \<and> 0 \<le> turbulence (windParams s)"
proof -
  have "(0.05::real) \<le> createRandomGenerator s 0.05 0.15 13"
    by (rule random_lower) simp
  moreover have "(0.1::real) \<le> createRandomGenerator s 0.1 0.3 27"
    by (rule random_lower) simp
  ultimately show ?thesis by (simp add: windParams_def Let_def)
qed

lemma abs_sin_mult_le: "0 \<le> a \<Longrightarrow> \<bar>sin x * a\<bar> \<le> (a::real)"
proof -
  assume a: "0 \<le> a"
  have "\<bar>sin x * a\<bar> = \<bar>sin x\<bar> * a" using a by (simp add: abs_mult)
  also have "\<dots> \<le> 1 * a" using a by (intro mult_right_mono) simp_all
  finally show ?thesis by simp
qed

lemma abs_cos_mult_le: "0 \<le> a \<Longrightarrow> \<bar>cos x * a\<bar> \<le> (a::real)"
proof -
  assume a: "0 \<le> a"
  have "\<bar>cos x * a\<bar> = \<bar>cos x\<bar> * a" using a by (simp add: abs_mult)
  also have "\<dots> \<le> 1 * a" using a by (intro mult_right_mono) simp_all
  finally show ?thesis by simp
qed

lemma abs_mult_cos_le: "\<bar>a * cos x\<bar> \<le> \<bar>a::real\<bar>"
proof -
  have "\<bar>a * cos x\<bar> = \<bar>a\<bar> * \<bar>cos x\<bar>" by (simp add: abs_mult)
  also have "\<dots> \<le> \<bar>a\<bar> * 1" by (intro mult_left_mono) simp_all
  finally show ?thesis by simp
qed

lemma abs_mult_sin_le: "\<bar>a * sin x\<bar> \<le> \<bar>a::real\<bar>"
proof -
  have "\<bar>a * sin x\<bar> = \<bar>a\<bar> * \<bar>sin x\<bar>" by (simp add: abs_mult)
  also have "\<dots> \<le> \<bar>a\<bar> * 1" by (intro mult_left_mono) simp_all
  finally show ?thesis by simp
qed

lemma directedWindX_bound:
  assumes "0 \<le> strength w" and "0 \<le> turbulence w"
  shows "\<bar>directedWindX w t\<bar> \<le> strength w + turbulence w * 0.05"
proof -
  have 1: "\<bar>windX w t\<bar> \<le> strength w"
    unfolding windX_def using assms(1) by (rule abs_sin_mult_le)
  have "\<bar>sin (t * 2.5 * speed w) * (turbulence w * 0.05)\<bar> \<le> turbulence w * 0.05"
    using assms(2) by (intro abs_sin_mult_le) simp
  then have 2: "\<bar>turbulenceX w t\<bar> \<le> turbulence w * 0.05"
    by (simp add: turbulenceX_def mult.assoc)
  have "\<bar>directedWindX w t\<bar> \<le> \<bar>windX w t + turbulenceX w t\<bar>"
    unfolding directedWindX_def by (rule abs_mult_cos_le)
  also have "\<dots> \<le> \<bar>windX w t\<bar> + \<bar>turbulenceX w t\<bar>" by (rule abs_triangle_ineq)
  finally show ?thesis using 1 2 by linarith
qed

lemma directedWindZ_bound:
  assumes "0 \<le> strength w" and "0 \<le> turbulence w"
  shows "\<bar>directedWindZ w t\<bar> \<le> strength w * 0.7 + turbulence w * 0.04"
proof -
  have "\<bar>cos (t * speed w + 0.3) * (strength w * 0.7)\<bar> \<le> strength w * 0.7"
    using assms(1) by (intro abs_cos_mult_le) simp
  then have 1: "\<bar>windZ w t\<bar> \<le> strength w * 0.7"
    by (simp add: windZ_def mult.assoc)
  have "\<bar>cos (t * 2.7 * speed w) * (turbulence w * 0.04)\<bar> \<le> turbulence w * 0.04"
    using assms(2) by (intro abs_cos_mult_le) simp
  then have 2: "\<bar>turbulenceZ w t\<bar> \<le> turbulence w * 0.04"
    by (simp add: turbulenceZ_def mult.assoc)
  have "\<bar>directedWindZ w t\<bar> \<le> \<bar>windZ w t + turbulenceZ w t\<bar>"
    unfolding directedWindZ_def by (rule abs_mult_sin_le)
  also have "\<dots> \<le> \<bar>windZ w t\<bar> + \<bar>turbulenceZ w t\<bar>" by (rule abs_triangle_ineq)
  finally show ?thesis using 1 2 by linarith
qed

text \<open>
  Claim C4. For the wind parameters derived from any seed: \<open>windX = sin(t*speed)*strength\<close>
  and \<open>windZ = cos(t*speed + 0.3)*strength*0.7\<close>; at \<open>t = 0\<close> the terms take their closed
  forms, in particular \<open>windX(0) = 0\<close>; and at every time \<open>t\<close> both directed outputs are
  bounded in absolute value by \<open>strength + turbulence\<close>.
\<close>

theorem wind_closed_form_and_bound:
  "windX (windParams s) t = sin (t * speed (windParams s)) * strength (windParams s)
   \<and> windZ (windParams s) t = cos (t * speed (windParams s) + 0.3) * strength (windParams s) * 0.7
   \<and> windX (windParams s) 0 = 0
   \<and> windZ (windParams s) 0 = cos 0.3 * strength (windParams s) * 0.7
   \<and> turbulenceX (windParams s) 0 = 0
   \<and> turbulenceZ (windParams s) 0 = turbulence (windParams s) * 0.04
   \<and> directedWindX (windParams s) 0 = 0
   \<and> \<bar>directedWindX (windParams s) t\<bar> \<le> strength (windParams s) + turbulence (windParams s)
   \<and> \<bar>directedWindZ (windParams s) t\<bar> \<le> strength (windParams s) + turbulence (windParams s)"
proof -
  let ?w = "windParams s"
  have nn: "0 \<le> strength ?w" "0 \<le> turbulence ?w"
    using windParams_nonneg [of s] by simp_all
  have sc: "turbulence ?w * 0.05 \<le> turbulence ?w" "turbulence ?w * 0.04 \<le> turbulence ?w"
    "strength ?w * 0.7 \<le> strength ?w"
    using nn by simp_all
  have bx: "\<bar>directedWindX ?w t\<bar> \<le> strength ?w + turbulence ?w"
    using directedWindX_bound [OF nn, of t] sc(1) by (rule order_trans [OF _ add_left_mono])
  have bz: "\<bar>directedWindZ ?w t\<bar> \<le> strength ?w + turbulence ?w"
    using directedWindZ_bound [OF nn, of t] add_mono [OF sc(3) sc(2)] by (rule order_trans)
  have cf: "windX ?w 0 = 0" "windZ ?w 0 = cos 0.3 * strength ?w * 0.7"
    "turbulenceX ?w 0 = 0" "turbulenceZ ?w 0 = turbulence ?w * 0.04"
    "directedWindX ?w 0 = 0"
    by (simp_all add: windX_def windZ_def turbulenceX_def turbulenceZ_def directedWindX_def)
  show ?thesis
    using bx bz cf by (simp add: windX_def windZ_def)
qed

subsection \<open>Vertical placement: field view, caller and single view\<close>

text \<open>
  Claim C5, as stated, fails: for stem height 6 the single-flower view puts the flower at
  height \<open>-1.5\<close> and the field view at \<open>-0.3\<close>.
\<close>

theorem placement_views_differ:
  "fst (snd (singleFlower_position 6))
   \<noteq> fst (snd (PlantedFlowerWithLabel_position
        (planted_flower\<lparr>stemHeight := 6, position := Some (0, 0, 0)\<rparr>)))"
  by (simp add: singleFlower_position_def singleFlowerYOffset_def
      PlantedFlowerWithLabel_position_def planted_flower_def)

text \<open>
  Claim C5, amended. For every stem height the field view and the placement caller
  \<open>plantFlower\<close> compute the same position from the same input (the height is set to
  \<open>-max(0, (stemHeight-4)*0.15)\<close> when \<open>stemHeight > 4\<close> and kept otherwise); the caller
  repeats the rule, and the field view applied to a position the caller has already
  adjusted leaves it as it is. The single-flower view uses another offset,
  \<open>-max(0.5, stemHeight*0.25)\<close>.
\<close>

theorem placement_rule_field_and_caller:
  "PlantedFlowerWithLabel_position (props\<lparr>position := Some pos\<rparr>)
     = plantFlower_position pos (stemHeight props)
   \<and> PlantedFlowerWithLabel_position
       (props\<lparr>position := Some (plantFlower_position pos (stemHeight props))\<rparr>)
     = plantFlower_position pos (stemHeight props)
   \<and> singleFlower_position sh = (0, - max 0.5 (sh * 0.25), 0)"
  by (cases pos)
    (simp add: PlantedFlowerWithLabel_position_def plantFlower_position_def
      singleFlower_position_def singleFlowerYOffset_def Let_def)

text \<open>
  Claim C6. The height the field view gives a plant: for \<open>stemHeight \<le> 4\<close> the stored
  height is kept (no offset), which is 0 for a plant placed at ground level by
  \<open>handlePlantFlower\<close> or without a position; for \<open>stemHeight > 4\<close> the height is
  \<open>-(stemHeight - 4) * 0.15\<close>; for \<open>stemHeight = 6\<close> it is \<open>-0.3\<close>.
\<close>

theorem field_vertical_offset:
  "PlantedFlowerWithLabel_position (props\<lparr>position := Some (x, y, z)\<rparr>)
     = (x, (if stemHeight props \<le> 4 then y else - ((stemHeight props - 4) * 0.15)), z)
   \<and> PlantedFlowerWithLabel_position (props\<lparr>position := Some (handlePlantFlower_position x z)\<rparr>)
     = (x, (if stemHeight props \<le> 4 then 0 else - ((stemHeight props - 4) * 0.15)), z)
   \<and> PlantedFlowerWithLabel_position (props\<lparr>position := None\<rparr>)
     = (0, (if stemHeight props \<le> 4 then 0 else - ((stemHeight props - 4) * 0.15)), 0)
   \<and> PlantedFlowerWithLabel_position
       (props\<lparr>stemHeight := 6, position := Some (handlePlantFlower_position x z)\<rparr>)
     = (x, - 0.3, z)"
  by (simp add: PlantedFlowerWithLabel_position_def handlePlantFlower_position_def Let_def)

subsection \<open>The just-watered effect\<close>








subsection \<open>Camera focus on a watered flower\<close>

lemma find_unique_id:
  "distinct (map pf_id fs) \<Longrightarrow> f \<in> set fs \<Longrightarrow>
   find (\<lambda>flower. pf_id flower = pf_id f) fs = Some f"
proof (induction fs)
  case Nil
  then show ?case by simp
next
  case (Cons g fs)
  show ?case
  proof (cases "pf_id g = pf_id f")
    case True
    have "g = f"
    proof (rule ccontr)
      assume "g \<noteq> f"
      then have "f \<in> set fs" using Cons.prems(2) by auto
      then have "pf_id f \<in> pf_id ` set fs" by (rule imageI)
      then show False using Cons.prems(1) True by simp
    qed
    then show ?thesis by simp
  next
    case False
    then have "f \<in> set fs" using Cons.prems(2) by auto
    then show ?thesis using Cons False by simp
  qed
qed

lemma find_absent:
  "\<forall>f\<in>set fs. pf_id f \<noteq> wid \<Longrightarrow> find (\<lambda>flower. pf_id flower = wid) fs = None"
  by (induction fs) auto

lemma wateredFlowerPosition_found:
  assumes "distinct (map pf_id fs)" and "f \<in> set fs" and "pf_id f \<noteq> []"
  shows "wateredFlowerPosition (Some (pf_id f)) fs = Some (pf_position f)"
proof -
  have "fs \<noteq> []" using assms(2) by auto
  then show ?thesis
    using assms(3) find_unique_id [OF assms(1,2)] by (simp add: wateredFlowerPosition_def)
qed

lemma wateredFlowerPosition_missing:
  assumes "\<forall>f\<in>set fs. pf_id f \<noteq> wid"
  shows "wateredFlowerPosition (Some wid) fs = None"
  using find_absent [OF assms] by (simp add: wateredFlowerPosition_def)

text \<open>
  Claim C8. In field mode with the focus on a watered flower (a watered id and no
  just-planted position): if a flower with that id and position \<open>[x, y, z]\<close> exists, the
  camera target is \<open>[x, y + 2, z]\<close>, for an id as the store gives it (not empty, one
  flower per id); this half holds whatever the just-planted position is. If no flower has
  that id, the lookup fails silently and the framing is the default field framing with
  target \<open>[0, 0, 0]\<close>. The target is what the camera looks at and, when the orbit controls
  exist, their target.
\<close>

theorem camera_focus_resolution:
  "(wid \<noteq> [] \<and> distinct (map pf_id fs) \<longrightarrow>
      (\<forall>f\<in>set fs. pf_id f = wid \<longrightarrow>
         (case pf_position f of (x, y, z) \<Rightarrow>
            camera_position (CameraController True foc (Some wid) fs sh cam) = (x + 7, 9, z + 7)
          \<and> camera_lookAt (CameraController True foc (Some wid) fs sh cam) = (x, y + 2, z)
          \<and> controls_target (CameraController True foc (Some wid) fs sh cam)
              = (case controls_target cam of None \<Rightarrow> None | Some t \<Rightarrow> Some (x, y + 2, z)))))
   \<and> ((\<forall>f\<in>set fs. pf_id f \<noteq> wid) \<longrightarrow>
         camera_position (CameraController True None (Some wid) fs sh cam) = (8, 8, 8)
       \<and> camera_lookAt (CameraController True None (Some wid) fs sh cam) = (0, 0, 0)
       \<and> controls_target (CameraController True None (Some wid) fs sh cam)
           = (case controls_target cam of None \<Rightarrow> None | Some t \<Rightarrow> Some (0, 0, 0)))"
proof (intro conjI ballI impI)
  fix f assume h: "wid \<noteq> [] \<and> distinct (map pf_id fs)" and f: "f \<in> set fs" "pf_id f = wid"
  obtain x y z where p: "pf_position f = (x, y, z)" by (cases "pf_position f") auto
  have "wateredFlowerPosition (Some wid) fs = Some (x, y, z)"
    using wateredFlowerPosition_found [of fs f] h f p by simp
  then show "case pf_position f of (x, y, z) \<Rightarrow>
            camera_position (CameraController True foc (Some wid) fs sh cam) = (x + 7, 9, z + 7)
          \<and> camera_lookAt (CameraController True foc (Some wid) fs sh cam) = (x, y + 2, z)
          \<and> controls_target (CameraController True foc (Some wid) fs sh cam)
              = (case controls_target cam of None \<Rightarrow> None | Some t \<Rightarrow> Some (x, y + 2, z))"
    by (simp add: p CameraController_def frame_camera_def)
next
  assume "\<forall>f\<in>set fs. pf_id f \<noteq> wid"
  then have w: "wateredFlowerPosition (Some wid) fs = None"
    by (rule wateredFlowerPosition_missing)
  show "camera_position (CameraController True None (Some wid) fs sh cam) = (8, 8, 8)"
    using w by (simp add: CameraController_def frame_camera_def)
  show "camera_lookAt (CameraController True None (Some wid) fs sh cam) = (0, 0, 0)"
    using w by (simp add: CameraController_def frame_camera_def)
  show "controls_target (CameraController True None (Some wid) fs sh cam)
           = (case controls_target cam of None \<Rightarrow> None | Some t \<Rightarrow> Some (0, 0, 0))"
    using w by (simp add: CameraController_def frame_camera_def)
qed

theorem camera_focus_resolution_witness:
  "''a'' \<noteq> [] \<and> distinct (map pf_id [flower_a]) \<and> flower_a \<in> set [flower_a]
   \<and> pf_id flower_a = ''a'' \<and> pf_position flower_a = (1, 0, 2)
   \<and> camera_lookAt (CameraController True None (Some ''a'')
        [flower_a] 3 initial_camera) = (1, 2, 2)
   \<and> controls_target (CameraController True None (Some ''a'')
        [flower_a] 3 initial_camera) = Some (1, 2, 2)
   \<and> pf_id flower_a \<noteq> ''missing''
   \<and> camera_lookAt (CameraController True None (Some ''missing'')
        [flower_a] 3 initial_camera) = (0, 0, 0)
   \<and> controls_target (CameraController True None (Some ''missing'')
        [flower_a] 3 initial_camera) = Some (0, 0, 0)"
proof -
  have h: "''a'' \<noteq> [] \<and> distinct (map pf_id [flower_a])" by simp
  have i: "flower_a \<in> set [flower_a]" by simp
  have j: "pf_id flower_a = ''a''" and p: "pf_position flower_a = (1, 0, 2)"
    and k: "pf_id flower_a \<noteq> ''missing''"
    by (simp_all add: flower_a_def)
  note found = camera_focus_resolution [of "''a''" "[flower_a]" None 3 initial_camera,
      THEN conjunct1, THEN mp, OF h, THEN bspec, OF i, THEN mp, OF j]
  have a: "camera_lookAt (CameraController True None (Some ''a'')
        [flower_a] 3 initial_camera) = (1, 2, 2)"
    and a': "controls_target (CameraController True None (Some ''a'')
        [flower_a] 3 initial_camera) = Some (1, 2, 2)"
    using found by (simp_all add: p initial_camera_def)
  have m: "\<forall>f\<in>set [flower_a]. pf_id f \<noteq> ''missing''" using k by simp
  note missing = camera_focus_resolution [of "''missing''" "[flower_a]" None 3 initial_camera,
      THEN conjunct2, THEN mp, OF m]
  have b: "camera_lookAt (CameraController True None (Some ''missing'')
        [flower_a] 3 initial_camera) = (0, 0, 0)"
    and b': "controls_target (CameraController True None (Some ''missing'')
        [flower_a] 3 initial_camera) = Some (0, 0, 0)"
    using missing by (simp_all add: initial_camera_def)
  show ?thesis using h i j p k a a' b b' by blast
qed

subsection \<open>Fetched records\<close>

lemma getPlantedFlowers_ok:
  "error res = None \<Longrightarrow> data res = Some rows \<Longrightarrow> getPlantedFlowers res = map normalize_flower rows"
  by (simp add: getPlantedFlowers_def)

lemma normalize_position:
  "get_prop (normalize_flower r) ''position''
     = (if is_array3 (get_prop r ''position'') then get_prop r ''position'' else origin)"
  by (simp add: normalize_flower_def get_prop_def)

lemma normalize_plantedAt:
  "get_prop (normalize_flower r) ''plantedAt''
     = (if json_truthy (get_prop r ''plantedAt'') then get_prop r ''plantedAt'' else epoch)"
  by (simp add: normalize_flower_def get_prop_def)

lemma normalize_lastWatered:
  "get_prop (normalize_flower r) ''lastWatered'' = get_prop r ''lastWatered''"
  by (simp add: normalize_flower_def get_prop_def)

lemma normalize_other:
  "k \<noteq> ''position'' \<Longrightarrow> k \<noteq> ''plantedAt'' \<Longrightarrow> k \<noteq> ''lastWatered'' \<Longrightarrow>
   normalize_flower r k = r k"
  by (simp add: normalize_flower_def)

text \<open>
  Claim C9. On a successful fetch (by \<open>getPlantedFlowers\<close> or \<open>getUserFlowers\<close>) every
  record is treated on its own: a position that is not a 3-element array is replaced by
  the origin, a missing (or otherwise falsy) \<open>plantedAt\<close> by the epoch timestamp, and
  every well-formed property passes through unchanged; the result has one record per
  fetched row, so a corrupt row does not affect the others.
\<close>

theorem fetched_records_defaults:
  assumes "error res = None" and "data res = Some rows"
  shows "length (getPlantedFlowers res) = length rows
       \<and> getUserFlowers u res = getPlantedFlowers res
       \<and> (\<forall>i<length rows.
            getPlantedFlowers res ! i = normalize_flower (rows ! i)
          \<and> get_prop (getPlantedFlowers res ! i) ''position''
              = (if is_array3 (get_prop (rows ! i) ''position'')
                 then get_prop (rows ! i) ''position'' else origin)
          \<and> get_prop (getPlantedFlowers res ! i) ''plantedAt''
              = (if json_truthy (get_prop (rows ! i) ''plantedAt'')
                 then get_prop (rows ! i) ''plantedAt'' else epoch)
          \<and> (get_prop (rows ! i) ''plantedAt'' \<in> {JUndefined, JNull}
               \<longrightarrow> get_prop (getPlantedFlowers res ! i) ''plantedAt'' = epoch)
          \<and> get_prop (getPlantedFlowers res ! i) ''lastWatered'' = get_prop (rows ! i) ''lastWatered''
          \<and> (\<forall>k. k \<notin> {''position'', ''plantedAt'', ''lastWatered''}
               \<longrightarrow> (getPlantedFlowers res ! i) k = (rows ! i) k))"
proof -
  have g: "getPlantedFlowers res = map normalize_flower rows"
    using assms by (rule getPlantedFlowers_ok)
  have u: "getUserFlowers u res = getPlantedFlowers res"
    by (simp add: getUserFlowers_def getPlantedFlowers_def)
  have missing: "get_prop (normalize_flower r) ''plantedAt'' = epoch"
    if "get_prop r ''plantedAt'' \<in> {JUndefined, JNull}" for r
    using that by (auto simp add: normalize_plantedAt)
  show ?thesis
    using u missing
    by (simp add: g normalize_position normalize_plantedAt normalize_lastWatered normalize_other)
qed

theorem fetched_records_defaults_witness:
  "error fetched = None
   \<and> data fetched = Some [corrupt_row, good_row]
   \<and> length (getPlantedFlowers fetched) = 2
   \<and> get_prop (getPlantedFlowers fetched ! 0) ''position'' = origin
   \<and> get_prop (getPlantedFlowers fetched ! 0) ''plantedAt'' = epoch
   \<and> get_prop (getPlantedFlowers fetched ! 1) ''position'' = JArr [JNum 1, JNum 0, JNum 2]
   \<and> get_prop (getPlantedFlowers fetched ! 1) ''plantedAt'' = JStr ''2025-01-01T10:00:00.000Z''"
proof -
  let ?rows = "[corrupt_row, good_row]"
  have h1: "error fetched = None" by (simp add: fetched_def)
  have h2: "data fetched = Some ?rows" by (simp add: fetched_def)
  note t = fetched_records_defaults [OF h1 h2, of "[]"]
  have len: "length (getPlantedFlowers fetched) = 2"
    using t [THEN conjunct1] by simp
  have i0: "0 < length ?rows" and i1: "1 < length ?rows" by simp_all
  note r0 = t [THEN conjunct2, THEN conjunct2, THEN spec, of 0, THEN mp, OF i0, THEN conjunct2]
  note r1 = t [THEN conjunct2, THEN conjunct2, THEN spec, of 1, THEN mp, OF i1, THEN conjunct2]
  have p0: "get_prop (getPlantedFlowers fetched ! 0) ''position'' = origin"
    using r0 [THEN conjunct1] by (simp add: get_prop_def corrupt_row_def)
  have a0: "get_prop (getPlantedFlowers fetched ! 0) ''plantedAt'' = epoch"
    using r0 [THEN conjunct2, THEN conjunct1] by (simp add: get_prop_def corrupt_row_def)
  have p1: "get_prop (getPlantedFlowers fetched ! 1) ''position'' = JArr [JNum 1, JNum 0, JNum 2]"
    using r1 [THEN conjunct1] by (simp add: get_prop_def good_row_def)
  have a1: "get_prop (getPlantedFlowers fetched ! 1) ''plantedAt'' = JStr ''2025-01-01T10:00:00.000Z''"
    using r1 [THEN conjunct2, THEN conjunct1] by (simp add: get_prop_def good_row_def)
  show ?thesis using h1 h2 len p0 a0 p1 a1 by blast
qed

text \<open>
  Claim C10. When the store reports an error \<open>getPlantedFlowers\<close> returns the empty list,
  the same value it returns for a successful fetch of an empty garden, so the caller
  cannot tell the two apart; on a successful fetch it returns one entry per stored record.
\<close>

theorem fetch_error_gives_empty:
  "(error res \<noteq> None \<longrightarrow> getPlantedFlowers res = [])
   \<and> (error res \<noteq> None \<longrightarrow>
        getPlantedFlowers res = getPlantedFlowers \<lparr>data = Some [], error = None\<rparr>)
   \<and> (error res = None \<and> data res = Some rows \<longrightarrow>
        length (getPlantedFlowers res) = length rows)"
  by (simp add: getPlantedFlowers_def)

theorem fetch_error_gives_empty_witness:
  "error failed_fetch \<noteq> None
   \<and> getPlantedFlowers failed_fetch = []
   \<and> getPlantedFlowers failed_fetch = getPlantedFlowers \<lparr>data = Some [], error = None\<rparr>
   \<and> error fetched = None
   \<and> data fetched = Some [corrupt_row, good_row]
   \<and> length (getPlantedFlowers fetched) = 2"
proof -
  have h1: "error failed_fetch \<noteq> None" by (simp add: failed_fetch_def)
  have h2: "error fetched = None"
    and h3: "data fetched = Some [corrupt_row, good_row]"
    by (simp_all add: fetched_def)
  have a: "getPlantedFlowers failed_fetch = []"
    and b: "getPlantedFlowers failed_fetch = getPlantedFlowers \<lparr>data = Some [], error = None\<rparr>"
    using h1 fetch_error_gives_empty [of failed_fetch] by blast+
  have c: "length (getPlantedFlowers fetched) = 2"
    using h2 h3 fetch_error_gives_empty [of fetched "[corrupt_row, good_row]"] by simp
  show ?thesis using h1 h2 h3 a b c by blast
qed

end
